theory Spec2Isabelle
  imports Complex_Main "HOL-Library.Sublist"
begin

section \<open>Data model (src/types.ts)\<close>

text \<open>
  \<^verbatim>\<open>ImageResult\<close> of src/types.ts. The field \<^verbatim>\<open>id\<close> is written \<open>id'\<close> (HOL has a
  constant \<open>id\<close>) and the field \<^verbatim>\<open>prompt\<close> is written \<open>imgPrompt\<close> (the component
  state has a variable \<^verbatim>\<open>prompt\<close> of its own). \<^verbatim>\<open>Date.now()\<close> is a count of
  milliseconds, a natural number here.
\<close>

record ImageResult =
  id' :: string
  data :: string
  mimeType :: string
  imgPrompt :: string
  model :: string
  timestamp :: nat

datatype GenerationMode = GENERATE | EDIT_ANGLES

datatype ImageSize = SIZE_1K | SIZE_2K | SIZE_4K

datatype AspectRatio = R1_1 | R3_4 | R4_3 | R16_9 | R9_16

section \<open>JavaScript strings and promises\<close>

text \<open>\<^verbatim>\<open>s.includes(sub)\<close>: \<open>sub\<close> occurs in \<open>s\<close> as a contiguous run.\<close>

fun includes_str :: "string \<Rightarrow> string \<Rightarrow> bool" where
  "includes_str [] sub = (sub = [])"
| "includes_str (c # cs) sub = (prefix sub (c # cs) \<or> includes_str cs sub)"

text \<open>
  \<^verbatim>\<open>err.message?.includes(sub)\<close> used as a condition: the thrown value's
  \<^verbatim>\<open>message\<close> is \<open>None\<close> when the property is absent, and then the optional chain
  gives \<^verbatim>\<open>undefined\<close>, which is falsy.
\<close>

definition message_includes :: "string option \<Rightarrow> string \<Rightarrow> bool" where
  "message_includes m sub = (case m of None \<Rightarrow> False | Some s \<Rightarrow> includes_str s sub)"

text \<open>
  \<^verbatim>\<open>m || fallback\<close> on an optional string: \<^verbatim>\<open>undefined\<close> and the empty
  string are both falsy.
\<close>

definition message_or :: "string option \<Rightarrow> string \<Rightarrow> string" where
  "message_or m fallback = (case m of None \<Rightarrow> fallback | Some s \<Rightarrow> if s = [] then fallback else s)"

text \<open>
  A settled promise: fulfilled with a value, or rejected with a reason. The code reads
  only the reason's \<^verbatim>\<open>message\<close> property, so a reason is that property
  (\<open>None\<close> when the thrown value has none).
\<close>

datatype 'a settled = Fulfilled 'a | Rejected "string option"

fun isFulfilled :: "'a settled \<Rightarrow> bool" where
  "isFulfilled (Fulfilled v) = True"
| "isFulfilled (Rejected m) = False"

fun isRejected :: "'a settled \<Rightarrow> bool" where
  "isRejected (Fulfilled v) = False"
| "isRejected (Rejected m) = True"

text \<open>
  \<^verbatim>\<open>results.filter(r => r.status === 'fulfilled').map(r => r.value)\<close>
\<close>

fun fulfilledValues :: "'a settled list \<Rightarrow> 'a list" where
  "fulfilledValues [] = []"
| "fulfilledValues (Fulfilled v # rs) = v # fulfilledValues rs"
| "fulfilledValues (Rejected m # rs) = fulfilledValues rs"

text \<open>
  \<^verbatim>\<open>results.find(r => r.status === 'rejected')?.reason?.message\<close>: the message of
  the first rejected entry, \<open>None\<close> when no entry is rejected or it has no message.
\<close>

definition firstRejectedMessage :: "'a settled list \<Rightarrow> string option" where
  "firstRejectedMessage rs =
     (case find isRejected rs of
        Some (Rejected m) \<Rightarrow> m
      | _ \<Rightarrow> None)"

text \<open>
  \<^verbatim>\<open>Promise.allSettled(promises)\<close>, the runtime's combinator. The promises settle
  in some order, the completion order \<open>order\<close> (a list of positions); each one that
  settles writes its outcome at its own position of the result array; the combined
  promise resolves once every position is written, and never resolves otherwise
  (\<open>None\<close>).
\<close>

definition settleAt :: "'a settled list \<Rightarrow> nat \<Rightarrow> 'a settled option list \<Rightarrow> 'a settled option list" where
  "settleAt ps i acc = (if i < length ps then acc[i := Some (ps ! i)] else acc)"

definition allSettled :: "nat list \<Rightarrow> 'a settled list \<Rightarrow> 'a settled list option" where
  "allSettled order ps = those (fold (settleAt ps) order (replicate (length ps) None))"

text \<open>Every one of \<open>n\<close> promises settles in the completion order \<open>order\<close>.\<close>

definition settlesAll :: "nat list \<Rightarrow> nat \<Rightarrow> bool" where
  "settlesAll order n = list_all (\<lambda>i. i \<in> set order) [0..<n]"

text \<open>\<^verbatim>\<open>n.toString()\<close> on a natural number: its decimal digits.\<close>

fun toString :: "nat \<Rightarrow> string" where
  "toString n =
     (if n < 10 then [''0123456789'' ! n]
      else toString (n div 10) @ [''0123456789'' ! (n mod 10)])"

declare toString.simps [simp del]

section \<open>Component state and environment (src/App.tsx)\<close>

text \<open>The \<^verbatim>\<open>useState\<close> variables of \<^verbatim>\<open>App\<close>, lines 18 to 33.\<close>

record AppState =
  mode :: GenerationMode
  prompt :: string
  inputImage :: "string option"
  generatedImages :: "ImageResult list"
  isLoading :: bool
  error :: "string option"
  selectedSize :: ImageSize
  selectedRatio :: AspectRatio
  viewImage :: "ImageResult option"
  isUpscaling :: bool
  zoomLevel :: real
  hasApiKey :: bool

definition initialState :: AppState where
  "initialState =
     \<lparr> mode = EDIT_ANGLES, prompt = [], inputImage = None, generatedImages = [],
       isLoading = False, error = None, selectedSize = SIZE_1K, selectedRatio = R1_1,
       viewImage = None, isUpscaling = False, zoomLevel = 1, hasApiKey = True \<rparr>"

text \<open>
  What one run of a handler receives from outside the component: the three functions of
  \<^verbatim>\<open>./services/geminiService\<close> (each call settles as the function says), the clock
  (\<open>dateNow k\<close> is the \<open>k\<close>-th reading of \<^verbatim>\<open>Date.now()\<close> in the run; in an edit
  batch reading \<open>k\<close> is the one of the task of angle \<open>k\<close>), \<^verbatim>\<open>crypto.randomUUID()\<close>
  (\<open>randomUUID k\<close> is the value drawn by the task of angle \<open>k\<close>) and the order in
  which the edit calls of a batch settle.
\<close>

record Env =
  generateImagePro :: "string \<Rightarrow> ImageSize \<Rightarrow> AspectRatio \<Rightarrow> string settled"
  editImageFlash :: "string \<Rightarrow> string \<Rightarrow> AspectRatio \<Rightarrow> string settled"
  upscaleImage :: "string \<Rightarrow> string \<Rightarrow> ImageSize \<Rightarrow> string settled"
  dateNow :: "nat \<Rightarrow> nat"
  randomUUID :: "nat \<Rightarrow> string"
  completionOrder :: "nat list"

text \<open>The external calls a handler issues, in the order it issues them.\<close>

datatype Call =
    CallGenerate string ImageSize AspectRatio
  | CallEdit string string AspectRatio
  | CallUpscale string string ImageSize

section \<open>handleGenerate (src/App.tsx, lines 70 to 153)\<close>

record AngleSpec =
  name :: string
  promptSuffix :: string

definition angles :: "AngleSpec list" where
  "angles =
     [ \<lparr> name = ''Low Angle'', promptSuffix = ''viewed from a low camera angle, looking up, dramatic perspective'' \<rparr>,
       \<lparr> name = ''High Angle'', promptSuffix = ''viewed from a high camera angle, looking down, bird's eye view'' \<rparr>,
       \<lparr> name = ''Side Profile'', promptSuffix = ''viewed from the side profile, cinematic lighting'' \<rparr>,
       \<lparr> name = ''Wide Shot'', promptSuffix = ''wide angle shot, showing surrounding context, environmental view'' \<rparr>,
       \<lparr> name = ''Close Up'', promptSuffix = ''extreme close up shot, highly detailed texture, macro photography style'' \<rparr>,
       \<lparr> name = ''Dutch Angle'', promptSuffix = ''Dutch angle shot, tilted camera horizon, dynamic energy, unease'' \<rparr>,
       \<lparr> name = ''Over the Shoulder'', promptSuffix = ''over-the-shoulder shot, narrative perspective, depth of field'' \<rparr> ]"

text \<open>Lines 113 to 115: the prompt sent for one angle.\<close>

definition fullPrompt :: "string \<Rightarrow> AngleSpec \<Rightarrow> string" where
  "fullPrompt p angle =
     (if p \<noteq> [] then p @ '', '' @ promptSuffix angle
      else ''Keep the subject but change camera to '' @ promptSuffix angle)"

text \<open>
  Lines 112 to 126: the task of the angle at position \<open>i\<close> of the table. It awaits the
  edit call and, when the call is fulfilled, wraps its payload; a rejected call rejects
  the task with the same reason.
\<close>

definition angleTask :: "Env \<Rightarrow> AppState \<Rightarrow> string \<Rightarrow> nat \<Rightarrow> AngleSpec \<Rightarrow> ImageResult settled" where
  "angleTask env st img i angle =
     (case editImageFlash env img (fullPrompt (prompt st) angle) (selectedRatio st) of
        Rejected m \<Rightarrow> Rejected m
      | Fulfilled resultBase64 \<Rightarrow>
          Fulfilled \<lparr> id' = randomUUID env i, data = resultBase64, mimeType = ''image/png'',
                      imgPrompt = name angle @ '': '' @ fullPrompt (prompt st) angle,
                      model = ''gemini-2.5-flash-image'', timestamp = dateNow env i \<rparr>)"

text \<open>
  Line 112: \<^verbatim>\<open>angles.map(async (angle) => ...)\<close> starts one task for every entry of
  the table, in table order; the entries are paired with their positions so that each
  task has its own draw of \<^verbatim>\<open>crypto.randomUUID()\<close> and its own clock reading.
\<close>

definition promises :: "Env \<Rightarrow> AppState \<Rightarrow> string \<Rightarrow> ImageResult settled list" where
  "promises env st img =
     map (\<lambda>(i, angle). angleTask env st img i angle) (zip [0..<length angles] angles)"

text \<open>The edit calls these tasks issue (line 117), one for every entry of the table.\<close>

definition editCalls :: "AppState \<Rightarrow> string \<Rightarrow> Call list" where
  "editCalls st img =
     map (\<lambda>angle. CallEdit img (fullPrompt (prompt st) angle) (selectedRatio st)) angles"

text \<open>
  Lines 145 to 152: the \<^verbatim>\<open>catch\<close> and \<^verbatim>\<open>finally\<close> blocks, run on a thrown value
  whose \<^verbatim>\<open>message\<close> is \<open>m\<close>.
\<close>

definition catchGenerate :: "string option \<Rightarrow> AppState \<Rightarrow> AppState" where
  "catchGenerate m st =
     (let st1 = st\<lparr> error := Some (message_or m ''An error occurred during generation'') \<rparr>;
          st2 = (if message_includes m ''Requested entity was not found'' \<or> message_includes m ''API key''
                 then st1\<lparr> hasApiKey := False \<rparr> else st1)
      in st2\<lparr> isLoading := False \<rparr>)"

text \<open>
  The handler returns the state it leaves and the external calls it issued; \<open>None\<close>
  when it never returns (an edit call that never settles).
\<close>

definition handleGenerate :: "Env \<Rightarrow> AppState \<Rightarrow> (AppState \<times> Call list) option" where
  "handleGenerate env st =
     (let st0 = st\<lparr> error := None, isLoading := True \<rparr> in
      case mode st of
        GENERATE \<Rightarrow>
          if \<not> hasApiKey st then Some (st0\<lparr> isLoading := False \<rparr>, [])
          else if prompt st = [] then
            Some (catchGenerate (Some ''Please enter a prompt description.'') st0, [])
          else
            (case generateImagePro env (prompt st) (selectedSize st) (selectedRatio st) of
               Rejected m \<Rightarrow>
                 Some (catchGenerate m st0, [CallGenerate (prompt st) (selectedSize st) (selectedRatio st)])
             | Fulfilled base64 \<Rightarrow>
                 Some (st0\<lparr> generatedImages :=
                              [\<lparr> id' = toString (dateNow env 0), data = base64, mimeType = ''image/png'',
                                 imgPrompt = prompt st, model = ''gemini-3-pro-image-preview'',
                                 timestamp = dateNow env 1 \<rparr>],
                            isLoading := False \<rparr>,
                       [CallGenerate (prompt st) (selectedSize st) (selectedRatio st)]))
      | EDIT_ANGLES \<Rightarrow>
          (case inputImage st of
             None \<Rightarrow> Some (catchGenerate (Some ''Please upload an image first.'') st0, [])
           | Some img \<Rightarrow>
               if img = [] then Some (catchGenerate (Some ''Please upload an image first.'') st0, [])
               else
                 (let results_opt = allSettled (completionOrder env) (promises env st img);
                      calls = editCalls st img
                  in case results_opt of
                       None \<Rightarrow> None
                     | Some results \<Rightarrow>
                         (let successfulImages = fulfilledValues results in
                          if length successfulImages = 0 then
                            (let m = firstRejectedMessage results;
                                 st1 = (if message_includes m ''Requested entity was not found''
                                        then st0\<lparr> hasApiKey := False \<rparr> else st0)
                             in Some (catchGenerate (Some (message_or m ''Failed to generate any variations.'')) st1,
                                      calls))
                          else
                            Some (st0\<lparr> generatedImages := successfulImages, isLoading := False \<rparr>, calls)))))"

section \<open>handleUpscale and its button (src/App.tsx, lines 155 to 185 and 433 to 445)\<close>

text \<open>
  The handler returns the state it leaves and the external calls it issued. The store is
  updated with \<^verbatim>\<open>prev => [upscaledResult, ...prev]\<close>, on the store as it is then. Setting
  a new viewed image runs the effect of lines 41 to 43, which resets the zoom level to 1.
\<close>

definition handleUpscale :: "Env \<Rightarrow> ImageResult \<Rightarrow> AppState \<Rightarrow> AppState \<times> Call list" where
  "handleUpscale env imageToUpscale st =
     (if \<not> hasApiKey st then (st\<lparr> hasApiKey := False \<rparr>, [])
      else
        (let st0 = st\<lparr> isUpscaling := True \<rparr>;
             call = CallUpscale (data imageToUpscale) (imgPrompt imageToUpscale) SIZE_4K
         in case upscaleImage env (data imageToUpscale) (imgPrompt imageToUpscale) SIZE_4K of
              Fulfilled upscaledBase64 \<Rightarrow>
                (let upscaledResult =
                       \<lparr> id' = toString (dateNow env 0), data = upscaledBase64, mimeType = ''image/png'',
                         imgPrompt = imgPrompt imageToUpscale,
                         model = ''gemini-3-pro-image-preview (Upscaled)'',
                         timestamp = dateNow env 1 \<rparr>
                 in (st0\<lparr> viewImage := Some upscaledResult,
                          zoomLevel := 1,
                          generatedImages := upscaledResult # generatedImages st0,
                          isUpscaling := False \<rparr>, [call]))
            | Rejected m \<Rightarrow>
                (let st1 = st0\<lparr> error := Some (message_or m ''Failed to upscale'') \<rparr>;
                     st2 = (if message_includes m ''Requested entity was not found''
                            then st1\<lparr> hasApiKey := False \<rparr> else st1)
                 in (st2\<lparr> isUpscaling := False \<rparr>, [call]))))"

text \<open>
  Line 435: the \<^verbatim>\<open>disabled\<close> property of the upscale button, which exists only while
  an image is viewed.
\<close>

definition upscaleDisabled :: "AppState \<Rightarrow> ImageResult \<Rightarrow> bool" where
  "upscaleDisabled st img = (isUpscaling st \<or> includes_str (model img) ''Upscaled'')"

text \<open>
  Modelled from the spec: the \<^verbatim>\<open>Button\<close> component (\<^verbatim>\<open>./components/Button\<close>) is not
  among the sources. The spec calls the \<^verbatim>\<open>disabled\<close> property a caller-side guard
  under which the operation is not invocable, so a click on a disabled button runs no
  handler; a click on an enabled one runs \<^verbatim>\<open>handleUpscale(viewImage)\<close> (line 434).
\<close>

definition clickUpscale :: "Env \<Rightarrow> AppState \<Rightarrow> AppState \<times> Call list" where
  "clickUpscale env st =
     (case viewImage st of
        None \<Rightarrow> (st, [])
      | Some img \<Rightarrow> if upscaleDisabled st img then (st, []) else handleUpscale env img st)"

section \<open>handleImageUpload (src/App.tsx, lines 54 to 64)\<close>

text \<open>
  \<open>file\<close> is \<open>None\<close> when the change event carries no file. Otherwise it holds what
  the reader has when \<^verbatim>\<open>onloadend\<close> fires: the data URL, or \<^verbatim>\<open>null\<close> (\<open>None\<close>) after
  a failed read.
\<close>

definition handleImageUpload :: "string option option \<Rightarrow> AppState \<Rightarrow> AppState \<times> Call list" where
  "handleImageUpload file st =
     (case file of
        None \<Rightarrow> (st, [])
      | Some result \<Rightarrow> (st\<lparr> inputImage := result, generatedImages := [] \<rparr>, []))"

section \<open>Vocabulary of the properties\<close>

text \<open>
  The positions, in the angle table, of the angles whose edit call is fulfilled, in table
  order.
\<close>

definition fulfilledAngles :: "Env \<Rightarrow> AppState \<Rightarrow> string \<Rightarrow> nat list" where
  "fulfilledAngles env st img =
     filter (\<lambda>i. isFulfilled (editImageFlash env img (fullPrompt (prompt st) (angles ! i)) (selectedRatio st)))
            [0..<length angles]"

section \<open>Sample runs\<close>

text \<open>
  A service that answers every request, except that it rejects the edits for the side
  profile and the Dutch angle; the edit calls settle last to first.
\<close>

definition sampleEnv :: Env where
  "sampleEnv =
     \<lparr> generateImagePro = (\<lambda>p size ratio. Fulfilled (''png:'' @ p)),
       editImageFlash = (\<lambda>img p ratio.
          if includes_str p ''side profile'' \<or> includes_str p ''Dutch angle''
          then Rejected (Some ''quota exceeded'') else Fulfilled (''png:'' @ p)),
       upscaleImage = (\<lambda>d p size. Fulfilled (''4k:'' @ d)),
       dateNow = (\<lambda>k. 1700000000000 + k),
       randomUUID = (\<lambda>k. ''uuid-'' @ toString k),
       completionOrder = [6, 5, 4, 3, 2, 1, 0] \<rparr>"

text \<open>A service that rejects every request with the message \<open>m\<close>.\<close>

definition failingEnv :: "string option \<Rightarrow> Env" where
  "failingEnv m =
     \<lparr> generateImagePro = (\<lambda>p size ratio. Rejected m),
       editImageFlash = (\<lambda>img p ratio. Rejected m),
       upscaleImage = (\<lambda>d p size. Rejected m),
       dateNow = (\<lambda>k. 1700000000000 + k),
       randomUUID = (\<lambda>k. ''uuid-'' @ toString k),
       completionOrder = [0, 1, 2, 3, 4, 5, 6] \<rparr>"

text \<open>A service that answers every request, under a clock that reads \<open>t\<close> throughout.\<close>

definition clockEnv :: "nat \<Rightarrow> Env" where
  "clockEnv t =
     \<lparr> generateImagePro = (\<lambda>p size ratio. Fulfilled (''png:'' @ p)),
       editImageFlash = (\<lambda>img p ratio. Fulfilled (''png:'' @ p)),
       upscaleImage = (\<lambda>d p size. Fulfilled (''4k:'' @ d)),
       dateNow = (\<lambda>k. t),
       randomUUID = (\<lambda>k. ''uuid-'' @ toString k),
       completionOrder = [0, 1, 2, 3, 4, 5, 6] \<rparr>"

text \<open>The state after an upload, in edit mode with no instruction typed.\<close>

definition editState :: AppState where
  "editState = initialState\<lparr> inputImage := Some ''data:image/png;base64,AAAA'' \<rparr>"

text \<open>The state after switching to generate mode and typing a prompt.\<close>

definition generateState :: AppState where
  "generateState = initialState\<lparr> mode := GENERATE, prompt := ''a red fox'' \<rparr>"

text \<open>An artifact as an edit batch makes it, and one as an upscale makes it.\<close>

definition flashImage :: ImageResult where
  "flashImage =
     \<lparr> id' = ''uuid-0'', data = ''png:flash'', mimeType = ''image/png'',
       imgPrompt = ''Low Angle: a red fox, viewed from a low camera angle, looking up, dramatic perspective'',
       model = ''gemini-2.5-flash-image'', timestamp = 1700000000000 \<rparr>"

definition upscaledImage :: ImageResult where
  "upscaledImage =
     \<lparr> id' = ''1700000000000'', data = ''4k:png:flash'', mimeType = ''image/png'',
       imgPrompt = ''Low Angle: a red fox, viewed from a low camera angle, looking up, dramatic perspective'',
       model = ''gemini-3-pro-image-preview (Upscaled)'', timestamp = 1700000000000 \<rparr>"

text \<open>The state in which the artifact of an edit batch is open in the viewer.\<close>

definition viewingState :: AppState where
  "viewingState = editState\<lparr> generatedImages := [flashImage], viewImage := Some flashImage \<rparr>"

text \<open>
  The artifact a generate call leaves under a clock that reads 1700000000000, and the
  artifact its upscale leaves under a clock that reads the same.
\<close>

definition proImage :: ImageResult where
  "proImage =
     \<lparr> id' = ''1700000000000'', data = ''png:a red fox'', mimeType = ''image/png'',
       imgPrompt = ''a red fox'', model = ''gemini-3-pro-image-preview'',
       timestamp = 1700000000000 \<rparr>"

definition upscaledProImage :: ImageResult where
  "upscaledProImage =
     \<lparr> id' = ''1700000000000'', data = ''4k:png:a red fox'', mimeType = ''image/png'',
       imgPrompt = ''a red fox'', model = ''gemini-3-pro-image-preview (Upscaled)'',
       timestamp = 1700000000000 \<rparr>"

text \<open>The state in which the upscaled artifact is open in the viewer.\<close>

definition viewingUpscaledState :: AppState where
  "viewingUpscaledState =
     editState\<lparr> generatedImages := [upscaledImage, flashImage], viewImage := Some upscaledImage \<rparr>"

section \<open>Auxiliary facts\<close>

subsection \<open>Strings and messages\<close>

text \<open>
  \<open>includes_str\<close> is the contiguous-sublist relation. A fallback text that does not
  contain a pattern does not change whether a message contains it, and none of the
  fallback texts of the handlers contains a pattern the handlers look for.
\<close>

lemma includes_str_sublist: "includes_str s sub \<longleftrightarrow> sublist sub s"
  by (induction s) (auto simp: sublist_Cons_right)

lemma message_or_idem:
  "fallback \<noteq> [] \<Longrightarrow> message_or (Some (message_or m fallback)) other = message_or m fallback"
  by (simp add: message_or_def split: option.splits)

lemma message_includes_or:
  assumes "\<not> includes_str fallback sub" and "sub \<noteq> []"
  shows "message_includes m sub = includes_str (message_or m fallback) sub"
  using assms by (cases m) (auto simp: message_includes_def message_or_def)

lemma fallback_generate:
  "\<not> includes_str ''An error occurred during generation'' ''Requested entity was not found''"
  "\<not> includes_str ''An error occurred during generation'' ''API key''"
  by simp_all

lemma fallback_variations:
  "\<not> includes_str ''Failed to generate any variations.'' ''Requested entity was not found''"
  "\<not> includes_str ''Failed to generate any variations.'' ''API key''"
  by simp_all

lemma fallback_upscale:
  "\<not> includes_str ''Failed to upscale'' ''Requested entity was not found''"
  by simp

subsection \<open>Settled promises\<close>

text \<open>
  \<open>allSettled\<close> resolves exactly when every promise settles, and then with the outcomes
  in the order of the promises, whatever the order in which they settled.
\<close>

lemma fold_settleAt:
  "length acc = length ps \<Longrightarrow>
   length (fold (settleAt ps) order acc) = length ps \<and>
   (\<forall>i<length ps. fold (settleAt ps) order acc ! i =
      (if i \<in> set order then Some (ps ! i) else acc ! i))"
proof (induction order arbitrary: acc)
  case Nil
  then show ?case by simp
next
  case (Cons j order)
  have len: "length (settleAt ps j acc) = length ps"
    using Cons.prems by (simp add: settleAt_def)
  have step: "\<forall>i<length ps. settleAt ps j acc ! i = (if i = j then Some (ps ! i) else acc ! i)"
    using Cons.prems by (simp add: settleAt_def nth_list_update)
  from Cons.IH [OF len] step show ?case by auto
qed

lemma those_map_Some: "those (map Some xs) = Some xs"
  by (induction xs) simp_all

lemma those_Some_iff: "those xs = Some ys \<longleftrightarrow> xs = map Some ys"
  by (induction xs arbitrary: ys) (auto split: option.splits)

lemma allSettled_eq:
  "allSettled order ps = (if settlesAll order (length ps) then Some ps else None)"
proof -
  let ?r = "fold (settleAt ps) order (replicate (length ps) None)"
  have inv: "length ?r = length ps"
    "\<And>i. i < length ps \<Longrightarrow> ?r ! i = (if i \<in> set order then Some (ps ! i) else None)"
    using fold_settleAt [of "replicate (length ps) None" ps order] by auto
  show ?thesis
  proof (cases "settlesAll order (length ps)")
    case True
    then have "\<forall>i<length ps. i \<in> set order"
      by (simp add: settlesAll_def list_all_iff)
    with inv have "?r = map Some ps"
      by (intro nth_equalityI) auto
    with True show ?thesis by (simp add: allSettled_def those_map_Some)
  next
    case False
    then obtain i where i: "i < length ps" "i \<notin> set order"
      by (auto simp: settlesAll_def list_all_iff)
    with inv have "?r ! i = None" by simp
    have "those ?r = None"
    proof (cases "those ?r")
      case (Some ys)
      then have eq: "?r = map Some ys" by (simp add: those_Some_iff)
      have "length ys = length ps" using inv(1) unfolding eq by simp
      then have "map Some ys ! i = Some (ys ! i)" using i by simp
      with \<open>?r ! i = None\<close> show ?thesis unfolding eq by simp
    qed simp
    with False show ?thesis by (simp add: allSettled_def)
  qed
qed

lemma fulfilledValues_set: "v \<in> set (fulfilledValues rs) \<longleftrightarrow> Fulfilled v \<in> set rs"
  by (induction rs rule: fulfilledValues.induct) auto

lemma fulfilledValues_length: "length (fulfilledValues rs) \<le> length rs"
  by (induction rs rule: fulfilledValues.induct) auto

lemma fulfilledValues_Nil_iff: "fulfilledValues rs = [] \<longleftrightarrow> (\<forall>r\<in>set rs. isRejected r)"
  by (induction rs rule: fulfilledValues.induct) auto

lemma fulfilledValues_filter:
  "map Fulfilled (fulfilledValues rs) = filter isFulfilled rs"
  by (induction rs rule: fulfilledValues.induct) auto

lemma fulfilledValues_map:
  "map Fulfilled (fulfilledValues (map f xs)) = map f (filter (\<lambda>x. isFulfilled (f x)) xs)"
  by (simp add: fulfilledValues_filter filter_map comp_def)

lemma firstRejectedMessage_Cons:
  "firstRejectedMessage (Rejected m # rs) = m"
  by (simp add: firstRejectedMessage_def)

lemma all_rejected_first:
  "ps \<noteq> [] \<Longrightarrow> \<forall>r\<in>set ps. isRejected r \<Longrightarrow> ps ! 0 = Rejected (firstRejectedMessage ps)"
  by (cases ps; cases "hd ps") (auto simp: firstRejectedMessage_def)

lemma some_fulfilled:
  assumes "i < length ps" and "isFulfilled (ps ! i)"
  shows "\<not> (\<forall>r\<in>set ps. isRejected r)"
proof
  assume "\<forall>r\<in>set ps. isRejected r"
  with assms(1) have "isRejected (ps ! i)" by simp
  with assms(2) show False by (cases "ps ! i") simp_all
qed

subsection \<open>The tasks of an edit batch\<close>

lemma length_angles: "length angles = 7"
  by (simp add: angles_def)

lemma promises_upt:
  "promises env st img = map (\<lambda>i. angleTask env st img i (angles ! i)) [0..<length angles]"
  unfolding promises_def by (rule nth_equalityI) simp_all

lemma length_promises: "length (promises env st img) = 7"
  by (simp add: promises_upt length_angles)

lemma nth_promises:
  "i < 7 \<Longrightarrow> promises env st img ! i = angleTask env st img i (angles ! i)"
  by (simp add: promises_upt length_angles)

lemma promises_nonempty: "promises env st img \<noteq> []"
  using length_promises [of env st img] by auto

lemma length_editCalls: "length (editCalls st img) = 7"
  by (simp add: editCalls_def length_angles)

lemma nth_editCalls:
  "i < 7 \<Longrightarrow> editCalls st img ! i = CallEdit img (fullPrompt (prompt st) (angles ! i)) (selectedRatio st)"
  by (simp add: editCalls_def length_angles)

lemma isFulfilled_angleTask:
  "isFulfilled (angleTask env st img i angle) =
   isFulfilled (editImageFlash env img (fullPrompt (prompt st) angle) (selectedRatio st))"
  by (simp add: angleTask_def split: settled.splits)

lemma angleTask_Fulfilled:
  "angleTask env st img i angle = Fulfilled a \<Longrightarrow>
   imgPrompt a = name angle @ '': '' @ fullPrompt (prompt st) angle \<and>
   id' a = randomUUID env i \<and> model a = ''gemini-2.5-flash-image''"
  by (auto simp: angleTask_def split: settled.splits)

lemma angleTask_completionOrder:
  "angleTask (env\<lparr> completionOrder := order \<rparr>) st img i angle = angleTask env st img i angle"
  by (simp add: angleTask_def split: settled.splits)

lemma promises_completionOrder:
  "promises (env\<lparr> completionOrder := order \<rparr>) st img = promises env st img"
  by (simp add: promises_def angleTask_completionOrder)

lemma angleTask_generatedImages:
  "angleTask env (st\<lparr> generatedImages := old \<rparr>) img i angle = angleTask env st img i angle"
  by (simp add: angleTask_def split: settled.splits)

lemma promises_generatedImages:
  "promises env (st\<lparr> generatedImages := old \<rparr>) img = promises env st img"
  by (simp add: promises_def angleTask_generatedImages)

lemma fulfilledValues_promises:
  "map Fulfilled (fulfilledValues (promises env st img)) =
   map (\<lambda>i. angleTask env st img i (angles ! i)) (fulfilledAngles env st img)"
  by (simp add: promises_upt fulfilledValues_map fulfilledAngles_def isFulfilled_angleTask)

lemma fulfilledAngles_sorted: "sorted_wrt (<) (fulfilledAngles env st img)"
  unfolding fulfilledAngles_def by (rule sorted_wrt_filter) (simp add: sorted_wrt_upt)

subsection \<open>The branches of the handlers\<close>

text \<open>
  What \<open>handleGenerate\<close> and \<open>handleUpscale\<close> return on each path: an edit batch whose
  calls all settle, an edit batch with a call that never settles, a rejected and a
  fulfilled generate call, a rejected and a fulfilled upscale call.
\<close>

lemma handleGenerate_edit:
  assumes "mode st = EDIT_ANGLES" and "inputImage st = Some img" and "img \<noteq> []"
    and "settlesAll (completionOrder env) (length angles)"
  shows "handleGenerate env st =
    Some (if fulfilledValues (promises env st img) = []
          then catchGenerate
                 (Some (message_or (firstRejectedMessage (promises env st img))
                          ''Failed to generate any variations.''))
                 (if message_includes (firstRejectedMessage (promises env st img))
                       ''Requested entity was not found''
                  then st\<lparr> error := None, isLoading := True, hasApiKey := False \<rparr>
                  else st\<lparr> error := None, isLoading := True \<rparr>)
          else st\<lparr> error := None, isLoading := True,
                    generatedImages := fulfilledValues (promises env st img),
                    isLoading := False \<rparr>,
          editCalls st img)"
  using assms
  by (simp add: handleGenerate_def allSettled_eq length_promises length_angles Let_def)

lemma handleGenerate_never_returns:
  assumes "mode st = EDIT_ANGLES" and "inputImage st = Some img" and "img \<noteq> []"
    and "\<not> settlesAll (completionOrder env) (length angles)"
  shows "handleGenerate env st = None"
  using assms
  by (simp add: handleGenerate_def allSettled_eq length_promises length_angles Let_def)

lemma handleGenerate_rejected:
  assumes "mode st = GENERATE" and "hasApiKey st" and "prompt st \<noteq> []"
    and "generateImagePro env (prompt st) (selectedSize st) (selectedRatio st) = Rejected m"
  shows "handleGenerate env st =
           Some (catchGenerate m (st\<lparr> error := None, isLoading := True \<rparr>),
                 [CallGenerate (prompt st) (selectedSize st) (selectedRatio st)])"
  using assms by (simp add: handleGenerate_def Let_def)

lemma handleGenerate_fulfilled:
  assumes "mode st = GENERATE" and "hasApiKey st" and "prompt st \<noteq> []"
    and "generateImagePro env (prompt st) (selectedSize st) (selectedRatio st) = Fulfilled b"
  shows "handleGenerate env st =
           Some (st\<lparr> error := None, isLoading := True,
                     generatedImages :=
                       [\<lparr> id' = toString (dateNow env 0), data = b, mimeType = ''image/png'',
                          imgPrompt = prompt st, model = ''gemini-3-pro-image-preview'',
                          timestamp = dateNow env 1 \<rparr>],
                     isLoading := False \<rparr>,
                 [CallGenerate (prompt st) (selectedSize st) (selectedRatio st)])"
  using assms by (simp add: handleGenerate_def Let_def)

lemma catchGenerate_fields:
  "error (catchGenerate m st) = Some (message_or m ''An error occurred during generation'')"
  "hasApiKey (catchGenerate m st) =
     (hasApiKey st \<and>
      \<not> (includes_str (message_or m ''An error occurred during generation'') ''Requested entity was not found'' \<or>
         includes_str (message_or m ''An error occurred during generation'') ''API key''))"
  "generatedImages (catchGenerate m st) = generatedImages st"
  "isLoading (catchGenerate m st) = False"
  using message_includes_or [OF fallback_generate(1), of m]
        message_includes_or [OF fallback_generate(2), of m]
  by (auto simp: catchGenerate_def Let_def)

lemma handleUpscale_rejected:
  assumes "hasApiKey st"
    and "upscaleImage env (data imageToUpscale) (imgPrompt imageToUpscale) SIZE_4K = Rejected m"
  shows "handleUpscale env imageToUpscale st =
           ((if message_includes m ''Requested entity was not found''
             then st\<lparr> isUpscaling := True, error := Some (message_or m ''Failed to upscale''),
                      hasApiKey := False, isUpscaling := False \<rparr>
             else st\<lparr> isUpscaling := True, error := Some (message_or m ''Failed to upscale''),
                      isUpscaling := False \<rparr>),
            [CallUpscale (data imageToUpscale) (imgPrompt imageToUpscale) SIZE_4K])"
  using assms by (simp add: handleUpscale_def Let_def)

lemma handleUpscale_fulfilled:
  assumes "hasApiKey st"
    and "upscaleImage env (data imageToUpscale) (imgPrompt imageToUpscale) SIZE_4K = Fulfilled b"
  shows "handleUpscale env imageToUpscale st =
           (let upscaledResult =
                  \<lparr> id' = toString (dateNow env 0), data = b, mimeType = ''image/png'',
                    imgPrompt = imgPrompt imageToUpscale,
                    model = ''gemini-3-pro-image-preview (Upscaled)'',
                    timestamp = dateNow env 1 \<rparr>
            in (st\<lparr> isUpscaling := True, viewImage := Some upscaledResult, zoomLevel := 1,
                     generatedImages := upscaledResult # generatedImages st,
                     isUpscaling := False \<rparr>,
                [CallUpscale (data imageToUpscale) (imgPrompt imageToUpscale) SIZE_4K]))"
  using assms by (simp add: handleUpscale_def Let_def)

subsection \<open>Identifiers\<close>

text \<open>
  The ids an edit batch stores are the values drawn for the fulfilled angles, so they
  are distinct when the draws are. The ids after an upscale are distinct exactly when
  they were before and the clock reading, written in decimal, is not among them.
\<close>

lemma fulfilledValues_ids:
  "map id' (fulfilledValues (map (\<lambda>i. angleTask env st img i (f i)) xs)) =
   map (randomUUID env)
     (filter (\<lambda>i. isFulfilled (editImageFlash env img (fullPrompt (prompt st) (f i)) (selectedRatio st))) xs)"
  by (induction xs) (auto simp: angleTask_def split: settled.splits)

lemma edit_batch_ids:
  "map id' (fulfilledValues (promises env st img)) = map (randomUUID env) (fulfilledAngles env st img)"
  by (simp add: promises_upt fulfilledValues_ids fulfilledAngles_def)

lemma edit_batch_ids_distinct:
  assumes "distinct (map (randomUUID env) [0..<length angles])"
  shows "distinct (map id' (fulfilledValues (promises env st img)))"
  unfolding edit_batch_ids fulfilledAngles_def using assms by (rule distinct_map_filter)

lemma upscale_ids_distinct_iff:
  assumes "hasApiKey st"
    and "upscaleImage env (data imageToUpscale) (imgPrompt imageToUpscale) SIZE_4K = Fulfilled b"
  shows "distinct (map id' (generatedImages (fst (handleUpscale env imageToUpscale st)))) \<longleftrightarrow>
         distinct (map id' (generatedImages st)) \<and>
         toString (dateNow env 0) \<notin> id' ` set (generatedImages st)"
  unfolding handleUpscale_fulfilled [OF assms] Let_def by auto

subsection \<open>The sample runs\<close>

lemma sample_fulfilledAngles:
  "fulfilledAngles sampleEnv editState ''data:image/png;base64,AAAA'' = [0, 1, 3, 4, 6]"
  by (simp add: fulfilledAngles_def sampleEnv_def editState_def initialState_def angles_def fullPrompt_def)

lemma sample_settlesAll: "settlesAll [6, 5, 4, 3, 2, 1, 0] (length angles)"
  by (simp add: settlesAll_def length_angles upt_rec)

lemma sample_promises_fulfilled:
  "map isFulfilled (promises sampleEnv editState ''data:image/png;base64,AAAA'') =
   [True, True, False, True, True, False, True]"
  by (simp add: promises_def angleTask_def sampleEnv_def editState_def initialState_def
      angles_def fullPrompt_def)

lemma failing_promises:
  "promises (failingEnv m) st img =
   [Rejected m, Rejected m, Rejected m, Rejected m, Rejected m, Rejected m, Rejected m]"
  by (simp add: promises_def angleTask_def failingEnv_def angles_def)

lemma failing_settlesAll: "settlesAll (completionOrder (failingEnv m)) (length angles)"
  by (simp add: settlesAll_def length_angles upt_rec failingEnv_def)

lemma sample_env_settlesAll: "settlesAll (completionOrder sampleEnv) (length angles)"
  by (simp add: settlesAll_def length_angles upt_rec sampleEnv_def)

lemma editState_fields:
  "mode editState = EDIT_ANGLES"
  "inputImage editState = Some ''data:image/png;base64,AAAA''"
  "prompt editState = []" "generatedImages editState = []" "hasApiKey editState"
  "error editState = None" "isLoading editState = False" "selectedRatio editState = R1_1"
  by (simp_all add: editState_def initialState_def)

lemma generateState_fields:
  "mode generateState = GENERATE" "prompt generateState = ''a red fox''"
  "hasApiKey generateState" "selectedSize generateState = SIZE_1K"
  "selectedRatio generateState = R1_1" "generatedImages generateState = []"
  by (simp_all add: generateState_def initialState_def)

lemma viewingState_fields:
  "hasApiKey viewingState" "generatedImages viewingState = [flashImage]"
  "viewImage viewingState = Some flashImage" "isUpscaling viewingState = False"
  "zoomLevel viewingState = 1"
  by (simp_all add: viewingState_def editState_def initialState_def)

lemma clock_upscale_flash:
  "upscaleImage (clockEnv t) (data flashImage) (imgPrompt flashImage) SIZE_4K = Fulfilled ''4k:png:flash''"
  by (simp add: clockEnv_def flashImage_def)

lemma toString_sample: "toString 1700000000000 = ''1700000000000''"
  by (simp add: toString.simps)

lemma upscale_flash_run:
  "handleUpscale (clockEnv 1700000000000) flashImage viewingState =
     (viewingState\<lparr> viewImage := Some upscaledImage,
                    generatedImages := [upscaledImage, flashImage] \<rparr>,
      [CallUpscale (data flashImage) (imgPrompt flashImage) SIZE_4K])"
  unfolding handleUpscale_fulfilled [OF viewingState_fields(1) clock_upscale_flash]
  by (simp add: Let_def toString_sample upscaledImage_def viewingState_def editState_def
      initialState_def clockEnv_def flashImage_def)

lemma sample_generate:
  "generateImagePro sampleEnv (prompt generateState) (selectedSize generateState)
     (selectedRatio generateState) = Fulfilled ''png:a red fox''"
  by (simp add: sampleEnv_def generateState_fields)

lemma initialState_fields:
  "mode initialState = EDIT_ANGLES" "inputImage initialState = None"
  "hasApiKey initialState" "prompt initialState = []" "generatedImages initialState = []"
  by (simp_all add: initialState_def)

lemma viewingUpscaledState_fields:
  "viewImage viewingUpscaledState = Some upscaledImage"
  "generatedImages viewingUpscaledState = [upscaledImage, flashImage]"
  "hasApiKey viewingUpscaledState" "isUpscaling viewingUpscaledState = False"
  by (simp_all add: viewingUpscaledState_def editState_def initialState_def)

lemma upscaledImage_marked: "includes_str (model upscaledImage) ''Upscaled''"
  by (simp add: upscaledImage_def)

lemma sample_first_promise:
  "promises sampleEnv editState ''data:image/png;base64,AAAA'' ! 0 =
     Fulfilled \<lparr> id' = ''uuid-0'',
                 data = ''png:Keep the subject but change camera to viewed from a low camera angle, looking up, dramatic perspective'',
                 mimeType = ''image/png'',
                 imgPrompt = ''Low Angle: Keep the subject but change camera to viewed from a low camera angle, looking up, dramatic perspective'',
                 model = ''gemini-2.5-flash-image'', timestamp = 1700000000000 \<rparr>"
  by (simp add: nth_promises angleTask_def sampleEnv_def editState_fields angles_def fullPrompt_def
      toString.simps)

lemma clock_generate_run:
  "handleGenerate (clockEnv 1700000000000) generateState =
     Some (generateState\<lparr> generatedImages := [proImage] \<rparr>, [CallGenerate ''a red fox'' SIZE_1K R1_1])"
  by (simp add: handleGenerate_def Let_def clockEnv_def generateState_def initialState_def
      proImage_def toString_sample)

lemma clock_upscale_run:
  "handleUpscale (clockEnv 1700000000000) proImage
     (generateState\<lparr> generatedImages := [proImage], viewImage := Some proImage \<rparr>) =
     (generateState\<lparr> generatedImages := [upscaledProImage, proImage], viewImage := Some upscaledProImage \<rparr>,
      [CallUpscale ''png:a red fox'' ''a red fox'' SIZE_4K])"
  by (simp add: handleUpscale_def Let_def clockEnv_def generateState_def initialState_def
      proImage_def upscaledProImage_def toString_sample)

section \<open>Claims\<close>

text \<open>
  C1, amended. For every edit-by-angle batch whose seven calls all settle, the handler
  returns, having issued seven edit calls. When at least one call is fulfilled it shows
  no error and stores exactly the artifacts of the fulfilled calls, between 1 and 7 of
  them. It fails if and only if all seven calls are rejected; the error it shows is then
  the message of the first rejected call when that message is present and not empty, and
  the fixed text "Failed to generate any variations." otherwise, and the store is left
  as it was.
\<close>

theorem edit_batch_partial_success:
  assumes "mode st = EDIT_ANGLES" and "inputImage st = Some img" and "img \<noteq> []"
    and "settlesAll (completionOrder env) (length angles)"
  shows "\<exists>st' calls.
           handleGenerate env st = Some (st', calls) \<and>
           calls = editCalls st img \<and> length calls = 7 \<and>
           (if \<forall>r\<in>set (promises env st img). isRejected r
            then error st' =
                   Some (message_or (firstRejectedMessage (promises env st img))
                           ''Failed to generate any variations.'') \<and>
                 promises env st img ! 0 = Rejected (firstRejectedMessage (promises env st img)) \<and>
                 generatedImages st' = generatedImages st
            else error st' = None \<and>
                 generatedImages st' = fulfilledValues (promises env st img) \<and>
                 (\<forall>a. a \<in> set (generatedImages st') \<longleftrightarrow> Fulfilled a \<in> set (promises env st img)) \<and>
                 1 \<le> length (generatedImages st') \<and> length (generatedImages st') \<le> 7)"
proof (cases "\<forall>r\<in>set (promises env st img). isRejected r")
  case True
  then have none: "fulfilledValues (promises env st img) = []"
    by (simp add: fulfilledValues_Nil_iff)
  have first: "promises env st img ! 0 = Rejected (firstRejectedMessage (promises env st img))"
    using all_rejected_first [OF promises_nonempty True] .
  show ?thesis
    unfolding handleGenerate_edit [OF assms]
    using True first by (simp add: none catchGenerate_def Let_def length_editCalls message_or_idem)
next
  case False
  then have some: "fulfilledValues (promises env st img) \<noteq> []"
    by (simp add: fulfilledValues_Nil_iff)
  then have pos: "1 \<le> length (fulfilledValues (promises env st img))"
    by (cases "fulfilledValues (promises env st img)") simp_all
  have le: "length (fulfilledValues (promises env st img)) \<le> 7"
    using fulfilledValues_length [of "promises env st img"] by (simp add: length_promises)
  show ?thesis
    unfolding handleGenerate_edit [OF assms]
    using False some pos le by (simp add: length_editCalls fulfilledValues_set)
qed

text \<open>
  C1 as stated fails: when every call is rejected with an empty message, the error shown
  is the fixed text, not the message of the first rejected call.
\<close>

theorem batch_exhaustion_message_counterexample:
  "editImageFlash (failingEnv (Some '''')) ''data:image/png;base64,AAAA''
     (fullPrompt (prompt editState) (angles ! 0)) (selectedRatio editState) = Rejected (Some '''') \<and>
   handleGenerate (failingEnv (Some '''')) editState =
     Some (editState\<lparr> error := Some ''Failed to generate any variations.'' \<rparr>,
           editCalls editState ''data:image/png;base64,AAAA'') \<and>
   Some ''Failed to generate any variations.'' \<noteq> Some ''''"
proof -
  have n: "''data:image/png;base64,AAAA'' \<noteq> []" by simp
  have call: "editImageFlash (failingEnv (Some '''')) ''data:image/png;base64,AAAA''
     (fullPrompt (prompt editState) (angles ! 0)) (selectedRatio editState) = Rejected (Some '''')"
    by (simp add: failingEnv_def)
  have run: "handleGenerate (failingEnv (Some '''')) editState =
     Some (editState\<lparr> error := Some ''Failed to generate any variations.'' \<rparr>,
           editCalls editState ''data:image/png;base64,AAAA'')"
    unfolding handleGenerate_edit [OF editState_fields(1,2) n failing_settlesAll]
    by (simp add: failing_promises firstRejectedMessage_def message_or_def
        message_includes_def catchGenerate_def Let_def editState_def initialState_def)
  show ?thesis using call run by simp
qed

theorem edit_batch_partial_success_witness:
  "mode editState = EDIT_ANGLES \<and>
   inputImage editState = Some ''data:image/png;base64,AAAA'' \<and>
   settlesAll (completionOrder sampleEnv) (length angles) \<and>
   map isFulfilled (promises sampleEnv editState ''data:image/png;base64,AAAA'') =
     [True, True, False, True, True, False, True] \<and>
   (\<exists>st' calls.
      handleGenerate sampleEnv editState = Some (st', calls) \<and> length calls = 7 \<and>
      error st' = None \<and>
      generatedImages st' = fulfilledValues (promises sampleEnv editState ''data:image/png;base64,AAAA'') \<and>
      1 \<le> length (generatedImages st') \<and> length (generatedImages st') \<le> 7)"
proof -
  have n: "''data:image/png;base64,AAAA'' \<noteq> []" by simp
  have some: "\<not> (\<forall>r\<in>set (promises sampleEnv editState ''data:image/png;base64,AAAA''). isRejected r)"
  proof (rule some_fulfilled [of 0])
    show "0 < length (promises sampleEnv editState ''data:image/png;base64,AAAA'')"
      by (simp add: length_promises)
    have "map isFulfilled (promises sampleEnv editState ''data:image/png;base64,AAAA'') ! 0"
      by (simp add: sample_promises_fulfilled)
    then show "isFulfilled (promises sampleEnv editState ''data:image/png;base64,AAAA'' ! 0)"
      by (simp add: length_promises)
  qed
  from edit_batch_partial_success [OF editState_fields(1,2) n sample_env_settlesAll]
  show ?thesis
    using some editState_fields(1,2) sample_env_settlesAll sample_promises_fulfilled
    by auto
qed

text \<open>
  C2. For every edit-by-angle batch and every pattern of fulfilled and rejected calls,
  the stored artifacts follow the order of the angle table, whatever the order in which
  the calls settle: the handler returns for every completion order \<open>order\<close> in which
  all seven calls settle, the artifacts it stores are those of the fulfilled angles
  taken at strictly increasing table positions (an artifact stored earlier belongs to an
  angle earlier in the table), and neither these positions nor the artifacts depend on
  \<open>order\<close>.
\<close>

theorem edit_batch_keeps_angle_order:
  assumes "mode st = EDIT_ANGLES" and "inputImage st = Some img" and "img \<noteq> []"
    and "settlesAll order (length angles)"
  shows "\<exists>st' calls.
           handleGenerate (env\<lparr> completionOrder := order \<rparr>) st = Some (st', calls) \<and>
           (fulfilledAngles env st img \<noteq> [] \<longrightarrow>
              map Fulfilled (generatedImages st') =
              map (\<lambda>i. angleTask env st img i (angles ! i)) (fulfilledAngles env st img)) \<and>
           sorted_wrt (<) (fulfilledAngles env st img) \<and>
           (\<forall>p q. p < q \<and> q < length (fulfilledAngles env st img) \<longrightarrow>
                  fulfilledAngles env st img ! p < fulfilledAngles env st img ! q)"
proof -
  let ?env = "env\<lparr> completionOrder := order \<rparr>"
  have increasing: "\<forall>p q. p < q \<and> q < length (fulfilledAngles env st img) \<longrightarrow>
                  fulfilledAngles env st img ! p < fulfilledAngles env st img ! q"
    using sorted_wrt_nth_less [OF fulfilledAngles_sorted] by blast
  have run: "handleGenerate ?env st =
    Some (if fulfilledValues (promises env st img) = []
          then catchGenerate
                 (Some (message_or (firstRejectedMessage (promises env st img))
                          ''Failed to generate any variations.''))
                 (if message_includes (firstRejectedMessage (promises env st img))
                       ''Requested entity was not found''
                  then st\<lparr> error := None, isLoading := True, hasApiKey := False \<rparr>
                  else st\<lparr> error := None, isLoading := True \<rparr>)
          else st\<lparr> error := None, isLoading := True,
                    generatedImages := fulfilledValues (promises env st img),
                    isLoading := False \<rparr>,
          editCalls st img)"
    using handleGenerate_edit [of st img ?env] assms by (simp add: promises_completionOrder)
  have nonempty: "fulfilledValues (promises env st img) \<noteq> []" if "fulfilledAngles env st img \<noteq> []"
  proof
    assume "fulfilledValues (promises env st img) = []"
    then have "map Fulfilled (fulfilledValues (promises env st img)) = []" by simp
    with that show False by (simp add: fulfilledValues_promises)
  qed
  show ?thesis
    unfolding run using nonempty fulfilledAngles_sorted increasing
    by (simp add: fulfilledValues_promises)
qed

theorem edit_batch_keeps_angle_order_witness:
  "mode editState = EDIT_ANGLES \<and>
   inputImage editState = Some ''data:image/png;base64,AAAA'' \<and>
   settlesAll [6, 5, 4, 3, 2, 1, 0] (length angles) \<and>
   fulfilledAngles sampleEnv editState ''data:image/png;base64,AAAA'' = [0, 1, 3, 4, 6] \<and>
   (\<exists>st' calls.
      handleGenerate (sampleEnv\<lparr> completionOrder := [6, 5, 4, 3, 2, 1, 0] \<rparr>) editState = Some (st', calls) \<and>
      map Fulfilled (generatedImages st') =
      map (\<lambda>i. angleTask sampleEnv editState ''data:image/png;base64,AAAA'' i (angles ! i)) [0, 1, 3, 4, 6])"
proof -
  have m: "mode editState = EDIT_ANGLES"
    and i: "inputImage editState = Some ''data:image/png;base64,AAAA''"
    by (simp_all add: editState_def initialState_def)
  have n: "''data:image/png;base64,AAAA'' \<noteq> []" by simp
  from edit_batch_keeps_angle_order [OF m i n sample_settlesAll, of sampleEnv]
  obtain st' calls where
    run: "handleGenerate (sampleEnv\<lparr> completionOrder := [6, 5, 4, 3, 2, 1, 0] \<rparr>) editState = Some (st', calls)"
    and stored: "fulfilledAngles sampleEnv editState ''data:image/png;base64,AAAA'' \<noteq> [] \<longrightarrow>
      map Fulfilled (generatedImages st') =
      map (\<lambda>i. angleTask sampleEnv editState ''data:image/png;base64,AAAA'' i (angles ! i))
        (fulfilledAngles sampleEnv editState ''data:image/png;base64,AAAA'')"
    by (elim exE conjE) (rule that)
  from stored have "map Fulfilled (generatedImages st') =
      map (\<lambda>i. angleTask sampleEnv editState ''data:image/png;base64,AAAA'' i (angles ! i)) [0, 1, 3, 4, 6]"
    unfolding sample_fulfilledAngles by simp
  with run have "\<exists>st' calls.
      handleGenerate (sampleEnv\<lparr> completionOrder := [6, 5, 4, 3, 2, 1, 0] \<rparr>) editState = Some (st', calls) \<and>
      map Fulfilled (generatedImages st') =
      map (\<lambda>i. angleTask sampleEnv editState ''data:image/png;base64,AAAA'' i (angles ! i)) [0, 1, 3, 4, 6]"
    by blast
  with m i sample_settlesAll sample_fulfilledAngles show ?thesis by blast
qed

text \<open>
  C3, amended. A failing generate call or a failing edit batch sets the authorized flag
  to false exactly when the failure message shown contains "Requested entity was not
  found" or contains "API key", and leaves the flag as it was otherwise; a failing
  upscale call sets it to false exactly when the message shown contains "Requested
  entity was not found", and leaves it as it was otherwise.
\<close>

theorem authorized_flag_transition:
  "(mode st = GENERATE \<and> hasApiKey st \<and> prompt st \<noteq> [] \<and>
    generateImagePro env (prompt st) (selectedSize st) (selectedRatio st) = Rejected m \<longrightarrow>
      (\<exists>st' calls e.
         handleGenerate env st = Some (st', calls) \<and> error st' = Some e \<and>
         e = message_or m ''An error occurred during generation'' \<and>
         hasApiKey st' =
           (hasApiKey st \<and>
            \<not> (includes_str e ''Requested entity was not found'' \<or> includes_str e ''API key'')))) \<and>
   (mode st = EDIT_ANGLES \<and> inputImage st = Some img \<and> img \<noteq> [] \<and>
    settlesAll (completionOrder env) (length angles) \<and>
    (\<forall>r\<in>set (promises env st img). isRejected r) \<longrightarrow>
      (\<exists>st' calls e.
         handleGenerate env st = Some (st', calls) \<and> error st' = Some e \<and>
         e = message_or (firstRejectedMessage (promises env st img)) ''Failed to generate any variations.'' \<and>
         hasApiKey st' =
           (hasApiKey st \<and>
            \<not> (includes_str e ''Requested entity was not found'' \<or> includes_str e ''API key'')))) \<and>
   (hasApiKey st \<and> upscaleImage env (data imageToUpscale) (imgPrompt imageToUpscale) SIZE_4K = Rejected m \<longrightarrow>
      (\<exists>st' calls e.
         handleUpscale env imageToUpscale st = (st', calls) \<and> error st' = Some e \<and>
         e = message_or m ''Failed to upscale'' \<and>
         hasApiKey st' = (hasApiKey st \<and> \<not> includes_str e ''Requested entity was not found'')))"
proof (intro conjI impI)
  assume a: "mode st = GENERATE \<and> hasApiKey st \<and> prompt st \<noteq> [] \<and>
    generateImagePro env (prompt st) (selectedSize st) (selectedRatio st) = Rejected m"
  then have run: "handleGenerate env st =
           Some (catchGenerate m (st\<lparr> error := None, isLoading := True \<rparr>),
                 [CallGenerate (prompt st) (selectedSize st) (selectedRatio st)])"
    by (simp add: handleGenerate_rejected)
  show "\<exists>st' calls e.
         handleGenerate env st = Some (st', calls) \<and> error st' = Some e \<and>
         e = message_or m ''An error occurred during generation'' \<and>
         hasApiKey st' =
           (hasApiKey st \<and>
            \<not> (includes_str e ''Requested entity was not found'' \<or> includes_str e ''API key''))"
    unfolding run by (simp add: catchGenerate_fields)
next
  let ?m = "firstRejectedMessage (promises env st img)"
  let ?e = "message_or ?m ''Failed to generate any variations.''"
  assume a: "mode st = EDIT_ANGLES \<and> inputImage st = Some img \<and> img \<noteq> [] \<and>
    settlesAll (completionOrder env) (length angles) \<and>
    (\<forall>r\<in>set (promises env st img). isRejected r)"
  then have none: "fulfilledValues (promises env st img) = []"
    by (simp add: fulfilledValues_Nil_iff)
  have run: "handleGenerate env st =
    Some (catchGenerate (Some ?e)
            (if message_includes ?m ''Requested entity was not found''
             then st\<lparr> error := None, isLoading := True, hasApiKey := False \<rparr>
             else st\<lparr> error := None, isLoading := True \<rparr>),
          editCalls st img)"
    using a handleGenerate_edit [of st img env] by (simp add: none)
  have first: "message_includes ?m ''Requested entity was not found'' =
               includes_str ?e ''Requested entity was not found''"
    by (rule message_includes_or [OF fallback_variations(1)]) simp
  have shown: "message_or (Some ?e) ''An error occurred during generation'' = ?e"
    by (rule message_or_idem) simp
  show "\<exists>st' calls e.
         handleGenerate env st = Some (st', calls) \<and> error st' = Some e \<and>
         e = ?e \<and>
         hasApiKey st' =
           (hasApiKey st \<and>
            \<not> (includes_str e ''Requested entity was not found'' \<or> includes_str e ''API key''))"
    unfolding run by (auto simp: catchGenerate_fields shown first)
next
  assume a: "hasApiKey st \<and> upscaleImage env (data imageToUpscale) (imgPrompt imageToUpscale) SIZE_4K = Rejected m"
  have incl: "message_includes m ''Requested entity was not found'' =
              includes_str (message_or m ''Failed to upscale'') ''Requested entity was not found''"
    by (rule message_includes_or [OF fallback_upscale]) simp
  show "\<exists>st' calls e.
         handleUpscale env imageToUpscale st = (st', calls) \<and> error st' = Some e \<and>
         e = message_or m ''Failed to upscale'' \<and>
         hasApiKey st' = (hasApiKey st \<and> \<not> includes_str e ''Requested entity was not found'')"
    using a handleUpscale_rejected [of st env imageToUpscale m] by (auto simp: incl [symmetric])
qed

text \<open>
  C3 as stated fails: a generate call that fails with a message containing "API key",
  and not "Requested entity was not found", sets the authorized flag to false.
\<close>

theorem authorized_flag_counterexample:
  "hasApiKey generateState \<and>
   \<not> includes_str ''API key expired'' ''Requested entity was not found'' \<and>
   handleGenerate (failingEnv (Some ''API key expired'')) generateState =
     Some (generateState\<lparr> error := Some ''API key expired'', hasApiKey := False \<rparr>,
           [CallGenerate ''a red fox'' SIZE_1K R1_1])"
  by (simp add: handleGenerate_def Let_def catchGenerate_def message_or_def message_includes_def
      failingEnv_def generateState_def initialState_def)

theorem authorized_flag_transition_witness:
  "(\<exists>st' calls.
      handleGenerate (failingEnv (Some ''Requested entity was not found.'')) generateState = Some (st', calls) \<and>
      error st' = Some ''Requested entity was not found.'' \<and> \<not> hasApiKey st') \<and>
   (\<exists>st' calls.
      handleGenerate (failingEnv (Some ''quota exceeded'')) editState = Some (st', calls) \<and>
      error st' = Some ''quota exceeded'' \<and> hasApiKey st') \<and>
   (\<exists>st' calls.
      handleUpscale (failingEnv (Some ''API key expired'')) flashImage viewingState = (st', calls) \<and>
      error st' = Some ''API key expired'' \<and> hasApiKey st')"
proof (intro conjI)
  have g: "mode generateState = GENERATE \<and> hasApiKey generateState \<and> prompt generateState \<noteq> [] \<and>
    generateImagePro (failingEnv (Some ''Requested entity was not found.'')) (prompt generateState)
      (selectedSize generateState) (selectedRatio generateState) = Rejected (Some ''Requested entity was not found.'')"
    by (simp add: generateState_fields failingEnv_def)
  from authorized_flag_transition [where st = generateState
      and env = "failingEnv (Some ''Requested entity was not found.'')"
      and m = "Some ''Requested entity was not found.''"] g
  show "\<exists>st' calls.
      handleGenerate (failingEnv (Some ''Requested entity was not found.'')) generateState = Some (st', calls) \<and>
      error st' = Some ''Requested entity was not found.'' \<and> \<not> hasApiKey st'"
    by (simp add: message_or_def)
next
  have e: "mode editState = EDIT_ANGLES \<and> inputImage editState = Some ''data:image/png;base64,AAAA'' \<and>
    ''data:image/png;base64,AAAA'' \<noteq> [] \<and>
    settlesAll (completionOrder (failingEnv (Some ''quota exceeded''))) (length angles) \<and>
    (\<forall>r\<in>set (promises (failingEnv (Some ''quota exceeded'')) editState ''data:image/png;base64,AAAA''). isRejected r)"
    by (simp add: editState_fields failing_settlesAll failing_promises)
  from authorized_flag_transition [where st = editState and img = "''data:image/png;base64,AAAA''"
      and env = "failingEnv (Some ''quota exceeded'')"] e
  show "\<exists>st' calls.
      handleGenerate (failingEnv (Some ''quota exceeded'')) editState = Some (st', calls) \<and>
      error st' = Some ''quota exceeded'' \<and> hasApiKey st'"
    by (simp add: failing_promises firstRejectedMessage_def message_or_def editState_fields)
next
  have u: "hasApiKey viewingState \<and>
    upscaleImage (failingEnv (Some ''API key expired'')) (data flashImage) (imgPrompt flashImage) SIZE_4K =
      Rejected (Some ''API key expired'')"
    by (simp add: viewingState_def editState_fields failingEnv_def)
  from authorized_flag_transition [where st = viewingState
      and env = "failingEnv (Some ''API key expired'')" and imageToUpscale = flashImage
      and m = "Some ''API key expired''"] u
  show "\<exists>st' calls.
      handleUpscale (failingEnv (Some ''API key expired'')) flashImage viewingState = (st', calls) \<and>
      error st' = Some ''API key expired'' \<and> hasApiKey st'"
    by (simp add: message_or_def)
qed

text \<open>
  C4, amended. For every artifact on which upscale succeeds, the new artifact's model
  identifier is the fixed text "gemini-3-pro-image-preview (Upscaled)", whatever the
  original's identifier; it is the original's identifier with " (Upscaled)" appended
  exactly when the original's identifier is "gemini-3-pro-image-preview". The new
  artifact carries the returned payload and the original's prompt, is set as the
  currently viewed image and is prepended to the Result Store.
\<close>

theorem upscale_success:
  assumes "hasApiKey st"
    and "upscaleImage env (data imageToUpscale) (imgPrompt imageToUpscale) SIZE_4K = Fulfilled b"
  shows "\<exists>st' upscaledResult.
           handleUpscale env imageToUpscale st =
             (st', [CallUpscale (data imageToUpscale) (imgPrompt imageToUpscale) SIZE_4K]) \<and>
           viewImage st' = Some upscaledResult \<and>
           generatedImages st' = upscaledResult # generatedImages st \<and>
           model upscaledResult = ''gemini-3-pro-image-preview (Upscaled)'' \<and>
           (model upscaledResult = model imageToUpscale @ '' (Upscaled)'' \<longleftrightarrow>
              model imageToUpscale = ''gemini-3-pro-image-preview'') \<and>
           data upscaledResult = b \<and> imgPrompt upscaledResult = imgPrompt imageToUpscale \<and>
           error st' = error st \<and> hasApiKey st' = hasApiKey st"
proof -
  have "''gemini-3-pro-image-preview (Upscaled)'' = ''gemini-3-pro-image-preview'' @ '' (Upscaled)''"
    by simp
  then have marker: "(''gemini-3-pro-image-preview (Upscaled)'' = model imageToUpscale @ '' (Upscaled)'') =
                (model imageToUpscale = ''gemini-3-pro-image-preview'')"
    by (metis append_same_eq)
  show ?thesis
    unfolding handleUpscale_fulfilled [OF assms] Let_def
    by (simp add: marker)
qed

text \<open>
  C4 as stated fails: the upscale of an artifact of an edit batch is tagged with the
  upscaling model, and the original's identifier is not even a prefix of the new one.
\<close>

theorem upscale_model_counterexample:
  "model flashImage = ''gemini-2.5-flash-image'' \<and>
   handleUpscale (clockEnv 1700000000000) flashImage viewingState =
     (viewingState\<lparr> viewImage := Some upscaledImage,
                    generatedImages := [upscaledImage, flashImage] \<rparr>,
      [CallUpscale (data flashImage) (imgPrompt flashImage) SIZE_4K]) \<and>
   model upscaledImage = ''gemini-3-pro-image-preview (Upscaled)'' \<and>
   model upscaledImage \<noteq> model flashImage @ '' (Upscaled)'' \<and>
   \<not> prefix (model flashImage) (model upscaledImage)"
  using upscale_flash_run by (simp add: flashImage_def upscaledImage_def)

theorem upscale_success_witness:
  "hasApiKey viewingState \<and>
   upscaleImage (clockEnv 1700000000000) (data flashImage) (imgPrompt flashImage) SIZE_4K =
     Fulfilled ''4k:png:flash'' \<and>
   (\<exists>st' upscaledResult.
      handleUpscale (clockEnv 1700000000000) flashImage viewingState =
        (st', [CallUpscale (data flashImage) (imgPrompt flashImage) SIZE_4K]) \<and>
      viewImage st' = Some upscaledResult \<and>
      generatedImages st' = [upscaledResult, flashImage] \<and>
      model upscaledResult = ''gemini-3-pro-image-preview (Upscaled)'' \<and>
      model upscaledResult \<noteq> model flashImage @ '' (Upscaled)'')"
proof -
  have neq: "model flashImage \<noteq> ''gemini-3-pro-image-preview''"
    by (simp add: flashImage_def)
  from upscale_success [OF viewingState_fields(1) clock_upscale_flash, of 1700000000000]
  show ?thesis
    using neq viewingState_fields(1,2) clock_upscale_flash by auto
qed

text \<open>
  C5. After a generate call or an edit batch completes, the Result Store is exactly the
  new result list, whatever the store held before (one artifact after a generate call,
  the artifacts of the fulfilled calls after an edit batch); after an upscale completes,
  the store is the new artifact followed by the previous store, so its size is the
  previous size plus one and every prior artifact is retained.
\<close>

theorem store_replaced_or_prepended:
  "(mode st = GENERATE \<and> hasApiKey st \<and> prompt st \<noteq> [] \<and>
    generateImagePro env (prompt st) (selectedSize st) (selectedRatio st) = Fulfilled b \<longrightarrow>
      (\<exists>st' calls st'' calls'.
         handleGenerate env st = Some (st', calls) \<and>
         generatedImages st' =
           [\<lparr> id' = toString (dateNow env 0), data = b, mimeType = ''image/png'',
              imgPrompt = prompt st, model = ''gemini-3-pro-image-preview'',
              timestamp = dateNow env 1 \<rparr>] \<and>
         length (generatedImages st') = 1 \<and>
         handleGenerate env (st\<lparr> generatedImages := old \<rparr>) = Some (st'', calls') \<and>
         generatedImages st'' = generatedImages st')) \<and>
   (mode st = EDIT_ANGLES \<and> inputImage st = Some img \<and> img \<noteq> [] \<and>
    settlesAll (completionOrder env) (length angles) \<and>
    fulfilledValues (promises env st img) \<noteq> [] \<longrightarrow>
      (\<exists>st' calls st'' calls'.
         handleGenerate env st = Some (st', calls) \<and>
         generatedImages st' = fulfilledValues (promises env st img) \<and>
         length (generatedImages st') = length (fulfilledValues (promises env st img)) \<and>
         handleGenerate env (st\<lparr> generatedImages := old \<rparr>) = Some (st'', calls') \<and>
         generatedImages st'' = generatedImages st')) \<and>
   (hasApiKey st \<and>
    upscaleImage env (data imageToUpscale) (imgPrompt imageToUpscale) SIZE_4K = Fulfilled b \<longrightarrow>
      (\<exists>st' calls upscaledResult.
         handleUpscale env imageToUpscale st = (st', calls) \<and>
         generatedImages st' = upscaledResult # generatedImages st \<and>
         length (generatedImages st') = length (generatedImages st) + 1 \<and>
         set (generatedImages st) \<subseteq> set (generatedImages st')))"
proof (intro conjI impI)
  assume a: "mode st = GENERATE \<and> hasApiKey st \<and> prompt st \<noteq> [] \<and>
    generateImagePro env (prompt st) (selectedSize st) (selectedRatio st) = Fulfilled b"
  then have b: "mode (st\<lparr> generatedImages := old \<rparr>) = GENERATE"
      "hasApiKey (st\<lparr> generatedImages := old \<rparr>)" "prompt (st\<lparr> generatedImages := old \<rparr>) \<noteq> []"
      "generateImagePro env (prompt (st\<lparr> generatedImages := old \<rparr>))
         (selectedSize (st\<lparr> generatedImages := old \<rparr>))
         (selectedRatio (st\<lparr> generatedImages := old \<rparr>)) = Fulfilled b"
    by simp_all
  from a have run: "handleGenerate env st =
           Some (st\<lparr> error := None, isLoading := True,
                     generatedImages :=
                       [\<lparr> id' = toString (dateNow env 0), data = b, mimeType = ''image/png'',
                          imgPrompt = prompt st, model = ''gemini-3-pro-image-preview'',
                          timestamp = dateNow env 1 \<rparr>],
                     isLoading := False \<rparr>,
                 [CallGenerate (prompt st) (selectedSize st) (selectedRatio st)])"
    by (simp add: handleGenerate_fulfilled)
  show "\<exists>st' calls st'' calls'.
         handleGenerate env st = Some (st', calls) \<and>
         generatedImages st' =
           [\<lparr> id' = toString (dateNow env 0), data = b, mimeType = ''image/png'',
              imgPrompt = prompt st, model = ''gemini-3-pro-image-preview'',
              timestamp = dateNow env 1 \<rparr>] \<and>
         length (generatedImages st') = 1 \<and>
         handleGenerate env (st\<lparr> generatedImages := old \<rparr>) = Some (st'', calls') \<and>
         generatedImages st'' = generatedImages st'"
    unfolding run handleGenerate_fulfilled [OF b] by simp
next
  assume a: "mode st = EDIT_ANGLES \<and> inputImage st = Some img \<and> img \<noteq> [] \<and>
    settlesAll (completionOrder env) (length angles) \<and>
    fulfilledValues (promises env st img) \<noteq> []"
  then have run: "handleGenerate env st =
      Some (st\<lparr> error := None, isLoading := True,
                generatedImages := fulfilledValues (promises env st img),
                isLoading := False \<rparr>, editCalls st img)"
    using handleGenerate_edit [of st img env] by simp
  from a have run': "handleGenerate env (st\<lparr> generatedImages := old \<rparr>) =
      Some (st\<lparr> generatedImages := old, error := None, isLoading := True,
                generatedImages := fulfilledValues (promises env st img),
                isLoading := False \<rparr>, editCalls (st\<lparr> generatedImages := old \<rparr>) img)"
    using handleGenerate_edit [of "st\<lparr> generatedImages := old \<rparr>" img env]
    by (simp add: promises_generatedImages)
  show "\<exists>st' calls st'' calls'.
         handleGenerate env st = Some (st', calls) \<and>
         generatedImages st' = fulfilledValues (promises env st img) \<and>
         length (generatedImages st') = length (fulfilledValues (promises env st img)) \<and>
         handleGenerate env (st\<lparr> generatedImages := old \<rparr>) = Some (st'', calls') \<and>
         generatedImages st'' = generatedImages st'"
    unfolding run run' by simp
next
  assume a: "hasApiKey st \<and>
    upscaleImage env (data imageToUpscale) (imgPrompt imageToUpscale) SIZE_4K = Fulfilled b"
  then have run: "handleUpscale env imageToUpscale st =
           (let upscaledResult =
                  \<lparr> id' = toString (dateNow env 0), data = b, mimeType = ''image/png'',
                    imgPrompt = imgPrompt imageToUpscale,
                    model = ''gemini-3-pro-image-preview (Upscaled)'',
                    timestamp = dateNow env 1 \<rparr>
            in (st\<lparr> isUpscaling := True, viewImage := Some upscaledResult, zoomLevel := 1,
                     generatedImages := upscaledResult # generatedImages st,
                     isUpscaling := False \<rparr>,
                [CallUpscale (data imageToUpscale) (imgPrompt imageToUpscale) SIZE_4K]))"
    by (simp add: handleUpscale_fulfilled)
  show "\<exists>st' calls upscaledResult.
         handleUpscale env imageToUpscale st = (st', calls) \<and>
         generatedImages st' = upscaledResult # generatedImages st \<and>
         length (generatedImages st') = length (generatedImages st) + 1 \<and>
         set (generatedImages st) \<subseteq> set (generatedImages st')"
    unfolding run Let_def by auto
qed

theorem store_replaced_or_prepended_witness:
  "(\<exists>st' calls new.
      handleGenerate sampleEnv (generateState\<lparr> generatedImages := [flashImage] \<rparr>) = Some (st', calls) \<and>
      generatedImages st' = [new] \<and> data new = ''png:a red fox'') \<and>
   (\<exists>st' calls.
      handleGenerate sampleEnv (editState\<lparr> generatedImages := [proImage] \<rparr>) = Some (st', calls) \<and>
      generatedImages st' = fulfilledValues (promises sampleEnv editState ''data:image/png;base64,AAAA'') \<and>
      length (generatedImages st') = 5) \<and>
   (\<exists>st' calls new.
      handleUpscale (clockEnv 1700000000000) flashImage viewingState = (st', calls) \<and>
      generatedImages st' = [new, flashImage] \<and> length (generatedImages st') = 2)"
proof (intro conjI)
  have g: "mode generateState = GENERATE \<and> hasApiKey generateState \<and> prompt generateState \<noteq> [] \<and>
    generateImagePro sampleEnv (prompt generateState) (selectedSize generateState)
      (selectedRatio generateState) = Fulfilled ''png:a red fox''"
    by (simp add: sample_generate) (simp add: generateState_fields)
  from store_replaced_or_prepended [where st = generateState and env = sampleEnv
      and b = "''png:a red fox''" and old = "[flashImage]", THEN conjunct1, THEN mp, OF g]
  obtain st' calls st'' calls' where
    "handleGenerate sampleEnv generateState = Some (st', calls) \<and>
     generatedImages st' =
       [\<lparr> id' = toString (dateNow sampleEnv 0), data = ''png:a red fox'', mimeType = ''image/png'',
          imgPrompt = prompt generateState, model = ''gemini-3-pro-image-preview'',
          timestamp = dateNow sampleEnv 1 \<rparr>] \<and>
     length (generatedImages st') = 1 \<and>
     handleGenerate sampleEnv (generateState\<lparr> generatedImages := [flashImage] \<rparr>) = Some (st'', calls') \<and>
     generatedImages st'' = generatedImages st'"
    by (elim exE) (rule that, assumption)
  then show "\<exists>st' calls new.
      handleGenerate sampleEnv (generateState\<lparr> generatedImages := [flashImage] \<rparr>) = Some (st', calls) \<and>
      generatedImages st' = [new] \<and> data new = ''png:a red fox''"
    by simp
next
  have five: "length (fulfilledValues (promises sampleEnv editState ''data:image/png;base64,AAAA'')) = 5"
    using arg_cong [OF fulfilledValues_promises [of sampleEnv editState "''data:image/png;base64,AAAA''"],
      of length]
    by (simp add: sample_fulfilledAngles)
  then have ne: "fulfilledValues (promises sampleEnv editState ''data:image/png;base64,AAAA'') \<noteq> []"
    by auto
  have e: "mode editState = EDIT_ANGLES \<and> inputImage editState = Some ''data:image/png;base64,AAAA'' \<and>
    ''data:image/png;base64,AAAA'' \<noteq> [] \<and>
    settlesAll (completionOrder sampleEnv) (length angles) \<and>
    fulfilledValues (promises sampleEnv editState ''data:image/png;base64,AAAA'') \<noteq> []"
    using ne by (simp add: editState_fields sample_env_settlesAll)
  from store_replaced_or_prepended [where st = editState and env = sampleEnv
      and img = "''data:image/png;base64,AAAA''" and old = "[proImage]",
      THEN conjunct2, THEN conjunct1, THEN mp, OF e]
  obtain st' calls st'' calls' where
    "handleGenerate sampleEnv editState = Some (st', calls) \<and>
     generatedImages st' = fulfilledValues (promises sampleEnv editState ''data:image/png;base64,AAAA'') \<and>
     length (generatedImages st') =
       length (fulfilledValues (promises sampleEnv editState ''data:image/png;base64,AAAA'')) \<and>
     handleGenerate sampleEnv (editState\<lparr> generatedImages := [proImage] \<rparr>) = Some (st'', calls') \<and>
     generatedImages st'' = generatedImages st'"
    by (elim exE) (rule that, assumption)
  then show "\<exists>st' calls.
      handleGenerate sampleEnv (editState\<lparr> generatedImages := [proImage] \<rparr>) = Some (st', calls) \<and>
      generatedImages st' = fulfilledValues (promises sampleEnv editState ''data:image/png;base64,AAAA'') \<and>
      length (generatedImages st') = 5"
    using five by simp
next
  have u: "hasApiKey viewingState \<and>
    upscaleImage (clockEnv 1700000000000) (data flashImage) (imgPrompt flashImage) SIZE_4K =
      Fulfilled ''4k:png:flash''"
    by (simp add: viewingState_fields clock_upscale_flash)
  from store_replaced_or_prepended [where st = viewingState and env = "clockEnv 1700000000000"
      and imageToUpscale = flashImage and b = "''4k:png:flash''",
      THEN conjunct2, THEN conjunct2, THEN mp, OF u]
  show "\<exists>st' calls new.
      handleUpscale (clockEnv 1700000000000) flashImage viewingState = (st', calls) \<and>
      generatedImages st' = [new, flashImage] \<and> length (generatedImages st') = 2"
    by (auto simp: viewingState_fields)
qed

text \<open>
  C6. A generate-mode submission with an empty prompt, the authorized flag being true,
  fails with the validation message "Please enter a prompt description.", issues no
  external call and leaves the Result Store (and every other state variable but the
  error slot and the loading flag) as it was; an edit-mode submission with no source
  image (none, or an empty one) fails likewise with "Please upload an image first."
  before any call is issued.
\<close>

theorem validation_errors:
  "(mode st = GENERATE \<and> hasApiKey st \<and> prompt st = [] \<longrightarrow>
      handleGenerate env st =
        Some (st\<lparr> error := Some ''Please enter a prompt description.'', isLoading := False \<rparr>, [])) \<and>
   (mode st = EDIT_ANGLES \<and> (inputImage st = None \<or> inputImage st = Some []) \<longrightarrow>
      handleGenerate env st =
        Some (st\<lparr> error := Some ''Please upload an image first.'', isLoading := False \<rparr>, []))"
  by (auto simp: handleGenerate_def Let_def catchGenerate_def message_or_def message_includes_def)

theorem validation_errors_witness:
  "handleGenerate sampleEnv (generateState\<lparr> prompt := [] \<rparr>) =
     Some (generateState\<lparr> prompt := [], error := Some ''Please enter a prompt description.'',
                          isLoading := False \<rparr>, []) \<and>
   handleGenerate sampleEnv initialState =
     Some (initialState\<lparr> error := Some ''Please upload an image first.'', isLoading := False \<rparr>, [])"
proof
  have g: "mode (generateState\<lparr> prompt := [] \<rparr>) = GENERATE \<and>
           hasApiKey (generateState\<lparr> prompt := [] \<rparr>) \<and> prompt (generateState\<lparr> prompt := [] \<rparr>) = []"
    by (simp add: generateState_fields)
  from validation_errors [where st = "generateState\<lparr> prompt := [] \<rparr>" and env = sampleEnv,
      THEN conjunct1, THEN mp, OF g]
  show "handleGenerate sampleEnv (generateState\<lparr> prompt := [] \<rparr>) =
     Some (generateState\<lparr> prompt := [], error := Some ''Please enter a prompt description.'',
                          isLoading := False \<rparr>, [])"
    by simp
next
  have e: "mode initialState = EDIT_ANGLES \<and>
           (inputImage initialState = None \<or> inputImage initialState = Some [])"
    by (simp add: initialState_fields)
  from validation_errors [where st = initialState and env = sampleEnv,
      THEN conjunct2, THEN mp, OF e]
  show "handleGenerate sampleEnv initialState =
     Some (initialState\<lparr> error := Some ''Please upload an image first.'', isLoading := False \<rparr>, [])"
    by simp
qed

text \<open>
  C7 (the \<^verbatim>\<open>id\<close> fields of the artifacts in the Result Store are pairwise distinct at
  every point of every sequence of operations) does not hold of the code. An edit batch
  draws its ids from \<^verbatim>\<open>crypto.randomUUID()\<close>, but a generate call and an upscale take
  \<^verbatim>\<open>Date.now().toString()\<close>, and an upscale prepends its artifact to the store without
  looking at the ids already there. In the run below a generate call completes while the
  clock reads 1700000000000, the user opens the artifact and upscales it, and the
  upscale completes while the clock reads 1700000000000 again: the store then holds two
  artifacts with the id "1700000000000".
\<close>

theorem duplicate_ids_after_upscale:
  "handleGenerate (clockEnv 1700000000000) generateState =
     Some (generateState\<lparr> generatedImages := [proImage] \<rparr>, [CallGenerate ''a red fox'' SIZE_1K R1_1]) \<and>
   handleUpscale (clockEnv 1700000000000) proImage
     (generateState\<lparr> generatedImages := [proImage], viewImage := Some proImage \<rparr>) =
     (generateState\<lparr> generatedImages := [upscaledProImage, proImage], viewImage := Some upscaledProImage \<rparr>,
      [CallUpscale ''png:a red fox'' ''a red fox'' SIZE_4K]) \<and>
   map id' [upscaledProImage, proImage] = [''1700000000000'', ''1700000000000''] \<and>
   \<not> distinct (map id' [upscaledProImage, proImage])"
  using clock_generate_run clock_upscale_run by (simp add: proImage_def upscaledProImage_def)

text \<open>
  C8, amended. In every edit-by-angle batch the prompt sent to the edit capability for
  an angle is "<instruction>, <suffix>" when the user supplied a non-empty instruction,
  and the template "Keep the subject but change camera to <suffix>", with a capital K,
  when they did not; the stored prompt of each resulting artifact is
  "<angle name>: <that prompt>".
\<close>

theorem angle_prompts:
  assumes "mode st = EDIT_ANGLES" and "inputImage st = Some img" and "img \<noteq> []"
    and "settlesAll (completionOrder env) (length angles)" and "i < 7"
  shows "\<exists>st' calls.
           handleGenerate env st = Some (st', calls) \<and>
           calls ! i = CallEdit img (fullPrompt (prompt st) (angles ! i)) (selectedRatio st) \<and>
           fullPrompt (prompt st) (angles ! i) =
             (if prompt st \<noteq> [] then prompt st @ '', '' @ promptSuffix (angles ! i)
              else ''Keep the subject but change camera to '' @ promptSuffix (angles ! i)) \<and>
           (\<forall>a. promises env st img ! i = Fulfilled a \<longrightarrow>
                a \<in> set (generatedImages st') \<and>
                imgPrompt a = name (angles ! i) @ '': '' @ fullPrompt (prompt st) (angles ! i))"
proof -
  have stored: "a \<in> set (fulfilledValues (promises env st img)) \<and>
                fulfilledValues (promises env st img) \<noteq> [] \<and>
                imgPrompt a = name (angles ! i) @ '': '' @ fullPrompt (prompt st) (angles ! i)"
    if "promises env st img ! i = Fulfilled a" for a
  proof -
    from that assms(5) have "Fulfilled a \<in> set (promises env st img)"
      by (metis length_promises nth_mem)
    then have "a \<in> set (fulfilledValues (promises env st img))"
      by (simp add: fulfilledValues_set)
    moreover from this have "fulfilledValues (promises env st img) \<noteq> []" by auto
    moreover from that assms(5) have "angleTask env st img i (angles ! i) = Fulfilled a"
      by (simp add: nth_promises)
    then have "imgPrompt a = name (angles ! i) @ '': '' @ fullPrompt (prompt st) (angles ! i)"
      by (simp add: angleTask_Fulfilled)
    ultimately show ?thesis by simp
  qed
  show ?thesis
    unfolding handleGenerate_edit [OF assms(1-4)]
    using stored assms(5) by (auto simp: nth_editCalls fullPrompt_def)
qed

text \<open>
  C8 as stated fails: with no instruction typed, the prompt sent for the first angle
  starts with "Keep", not with "keep".
\<close>

theorem prompt_template_counterexample:
  "prompt editState = [] \<and>
   handleGenerate (failingEnv None) editState =
     Some (editState\<lparr> error := Some ''Failed to generate any variations.'' \<rparr>,
           editCalls editState ''data:image/png;base64,AAAA'') \<and>
   editCalls editState ''data:image/png;base64,AAAA'' ! 0 =
     CallEdit ''data:image/png;base64,AAAA''
       ''Keep the subject but change camera to viewed from a low camera angle, looking up, dramatic perspective''
       R1_1 \<and>
   ''Keep the subject but change camera to viewed from a low camera angle, looking up, dramatic perspective'' \<noteq>
     ''keep the subject but change camera to '' @ promptSuffix (angles ! 0)"
proof -
  have n: "''data:image/png;base64,AAAA'' \<noteq> []" by simp
  have run: "handleGenerate (failingEnv None) editState =
     Some (editState\<lparr> error := Some ''Failed to generate any variations.'' \<rparr>,
           editCalls editState ''data:image/png;base64,AAAA'')"
    unfolding handleGenerate_edit [OF editState_fields(1,2) n failing_settlesAll]
    by (simp add: failing_promises firstRejectedMessage_def message_or_def
        message_includes_def catchGenerate_def Let_def editState_def initialState_def)
  have call: "editCalls editState ''data:image/png;base64,AAAA'' ! 0 =
     CallEdit ''data:image/png;base64,AAAA''
       ''Keep the subject but change camera to viewed from a low camera angle, looking up, dramatic perspective''
       R1_1"
    by (simp add: nth_editCalls editState_fields fullPrompt_def angles_def)
  show ?thesis using run call by (simp add: editState_fields)
qed

theorem angle_prompts_witness:
  "mode editState = EDIT_ANGLES \<and>
   inputImage editState = Some ''data:image/png;base64,AAAA'' \<and>
   settlesAll (completionOrder sampleEnv) (length angles) \<and>
   (\<exists>st' calls a.
      handleGenerate sampleEnv editState = Some (st', calls) \<and>
      calls ! 0 =
        CallEdit ''data:image/png;base64,AAAA''
          ''Keep the subject but change camera to viewed from a low camera angle, looking up, dramatic perspective''
          R1_1 \<and>
      a \<in> set (generatedImages st') \<and>
      imgPrompt a =
        ''Low Angle: Keep the subject but change camera to viewed from a low camera angle, looking up, dramatic perspective'')"
proof -
  have n: "''data:image/png;base64,AAAA'' \<noteq> []" by simp
  have z: "(0::nat) < 7" by simp
  from angle_prompts [OF editState_fields(1,2) n sample_env_settlesAll z]
  obtain st' calls where
    run: "handleGenerate sampleEnv editState = Some (st', calls)"
    and call: "calls ! 0 = CallEdit ''data:image/png;base64,AAAA''
                 (fullPrompt (prompt editState) (angles ! 0)) (selectedRatio editState)"
    and stored: "\<forall>a. promises sampleEnv editState ''data:image/png;base64,AAAA'' ! 0 = Fulfilled a \<longrightarrow>
                a \<in> set (generatedImages st') \<and>
                imgPrompt a = name (angles ! 0) @ '': '' @ fullPrompt (prompt editState) (angles ! 0)"
    by (elim exE conjE) (rule that)
  have call': "calls ! 0 =
        CallEdit ''data:image/png;base64,AAAA''
          ''Keep the subject but change camera to viewed from a low camera angle, looking up, dramatic perspective''
          R1_1"
    using call by (simp add: editState_fields fullPrompt_def angles_def)
  from stored sample_first_promise
  obtain a where a: "a \<in> set (generatedImages st')"
    and "imgPrompt a = name (angles ! 0) @ '': '' @ fullPrompt (prompt editState) (angles ! 0)"
    by blast
  then have a': "imgPrompt a =
        ''Low Angle: Keep the subject but change camera to viewed from a low camera angle, looking up, dramatic perspective''"
    by (simp add: editState_fields fullPrompt_def angles_def)
  from run call' a a' have "\<exists>st' calls a.
      handleGenerate sampleEnv editState = Some (st', calls) \<and>
      calls ! 0 =
        CallEdit ''data:image/png;base64,AAAA''
          ''Keep the subject but change camera to viewed from a low camera angle, looking up, dramatic perspective''
          R1_1 \<and>
      a \<in> set (generatedImages st') \<and>
      imgPrompt a =
        ''Low Angle: Keep the subject but change camera to viewed from a low camera angle, looking up, dramatic perspective''"
    by blast
  with editState_fields(1,2) sample_env_settlesAll show ?thesis by blast
qed

text \<open>
  C9. While an artifact whose model identifier contains "Upscaled" is open in the viewer,
  the upscale button is disabled: a click on it runs no handler, so no external call is
  issued and the store and the viewer state, like the rest of the state, are unchanged.
  Every artifact an upscale creates contains the marker, so the guard covers it.
\<close>

theorem upscale_guard:
  "(viewImage st = Some img \<and> includes_str (model img) ''Upscaled'' \<longrightarrow>
      upscaleDisabled st img \<and> clickUpscale env st = (st, [])) \<and>
   (hasApiKey st \<and> upscaleImage env (data imageToUpscale) (imgPrompt imageToUpscale) SIZE_4K = Fulfilled b \<longrightarrow>
      (\<exists>st' calls upscaledResult.
         handleUpscale env imageToUpscale st = (st', calls) \<and> viewImage st' = Some upscaledResult \<and>
         includes_str (model upscaledResult) ''Upscaled'' \<and>
         clickUpscale env' st' = (st', [])))"
proof (intro conjI impI)
  assume "viewImage st = Some img \<and> includes_str (model img) ''Upscaled''"
  then show "upscaleDisabled st img" "clickUpscale env st = (st, [])"
    by (simp_all add: upscaleDisabled_def clickUpscale_def)
next
  assume a: "hasApiKey st \<and>
    upscaleImage env (data imageToUpscale) (imgPrompt imageToUpscale) SIZE_4K = Fulfilled b"
  have marked: "includes_str ''gemini-3-pro-image-preview (Upscaled)'' ''Upscaled''"
    by simp
  from a show "\<exists>st' calls upscaledResult.
         handleUpscale env imageToUpscale st = (st', calls) \<and> viewImage st' = Some upscaledResult \<and>
         includes_str (model upscaledResult) ''Upscaled'' \<and>
         clickUpscale env' st' = (st', [])"
    by (simp add: handleUpscale_fulfilled Let_def clickUpscale_def upscaleDisabled_def marked)
qed

theorem upscale_guard_witness:
  "viewImage viewingUpscaledState = Some upscaledImage \<and>
   includes_str (model upscaledImage) ''Upscaled'' \<and>
   clickUpscale sampleEnv viewingUpscaledState = (viewingUpscaledState, []) \<and>
   (\<exists>st' calls.
      handleUpscale (clockEnv 1700000000000) flashImage viewingState = (st', calls) \<and>
      clickUpscale sampleEnv st' = (st', []))"
proof (intro conjI)
  have g: "viewImage viewingUpscaledState = Some upscaledImage \<and>
           includes_str (model upscaledImage) ''Upscaled''"
    by (simp add: viewingUpscaledState_fields upscaledImage_marked)
  then show "viewImage viewingUpscaledState = Some upscaledImage"
    and "includes_str (model upscaledImage) ''Upscaled''" by simp_all
  from upscale_guard [where st = viewingUpscaledState and img = upscaledImage and env = sampleEnv,
      THEN conjunct1, THEN mp, OF g]
  show "clickUpscale sampleEnv viewingUpscaledState = (viewingUpscaledState, [])"
    by simp
next
  have u: "hasApiKey viewingState \<and>
    upscaleImage (clockEnv 1700000000000) (data flashImage) (imgPrompt flashImage) SIZE_4K =
      Fulfilled ''4k:png:flash''"
    by (simp add: viewingState_fields clock_upscale_flash)
  from upscale_guard [where st = viewingState and env = "clockEnv 1700000000000"
      and imageToUpscale = flashImage and b = "''4k:png:flash''" and env' = sampleEnv,
      THEN conjunct2, THEN mp, OF u]
  show "\<exists>st' calls.
      handleUpscale (clockEnv 1700000000000) flashImage viewingState = (st', calls) \<and>
      clickUpscale sampleEnv st' = (st', [])"
    by blast
qed

text \<open>
  C10. Whatever the store holds, an upload that delivers a new source image sets it as
  the edit-mode source and resets the Result Store to the empty list, issuing no
  external call and changing nothing else.
\<close>

theorem upload_resets_store:
  "handleImageUpload (Some (Some img)) st =
     (st\<lparr> inputImage := Some img, generatedImages := [] \<rparr>, []) \<and>
   generatedImages (fst (handleImageUpload (Some (Some img)) st)) = [] \<and>
   inputImage (fst (handleImageUpload (Some (Some img)) st)) = Some img \<and>
   snd (handleImageUpload (Some (Some img)) st) = []"
  by (simp add: handleImageUpload_def)

end
